theory Spec2Isabelle
  imports Complex_Main
begin

section \<open>Gesture recognition: data model\<close>

text \<open>
  The module \<open>gestureRecognition\<close> classifies frames of hand landmarks into gestures.
  A JavaScript \<open>number\<close> is modelled as a \<open>real\<close>: comparisons and sums are exact, and
  \<open>NaN\<close>, infinities and rounding are outside the model.  A frame that may be \<open>null\<close> is a
  \<open>LandmarkList option\<close>.  Reading a property of \<open>undefined\<close> (an array read past the end,
  followed by \<open>.x\<close> or \<open>.y\<close>) throws a \<open>TypeError\<close> in the source; the model returns
  \<open>Inl TypeError\<close> there, so that every function that reads landmarks has the result type
  \<open>error + 'a\<close>.
\<close>

datatype error = TypeError

definition bind_result :: "error + 'a \<Rightarrow> ('a \<Rightarrow> error + 'b) \<Rightarrow> error + 'b" where
  "bind_result r f = (case r of Inl e \<Rightarrow> Inl e | Inr v \<Rightarrow> f v)"

text \<open>The landmark indices of the constant object \<open>LANDMARK\<close>.\<close>

definition WRIST :: nat where "WRIST = 0"
definition THUMB_CMC :: nat where "THUMB_CMC = 1"
definition THUMB_MCP :: nat where "THUMB_MCP = 2"
definition THUMB_IP :: nat where "THUMB_IP = 3"
definition THUMB_TIP :: nat where "THUMB_TIP = 4"
definition INDEX_MCP :: nat where "INDEX_MCP = 5"
definition INDEX_PIP :: nat where "INDEX_PIP = 6"
definition INDEX_DIP :: nat where "INDEX_DIP = 7"
definition INDEX_TIP :: nat where "INDEX_TIP = 8"
definition MIDDLE_MCP :: nat where "MIDDLE_MCP = 9"
definition MIDDLE_PIP :: nat where "MIDDLE_PIP = 10"
definition MIDDLE_DIP :: nat where "MIDDLE_DIP = 11"
definition MIDDLE_TIP :: nat where "MIDDLE_TIP = 12"
definition RING_MCP :: nat where "RING_MCP = 13"
definition RING_PIP :: nat where "RING_PIP = 14"
definition RING_DIP :: nat where "RING_DIP = 15"
definition RING_TIP :: nat where "RING_TIP = 16"
definition PINKY_MCP :: nat where "PINKY_MCP = 17"
definition PINKY_PIP :: nat where "PINKY_PIP = 18"
definition PINKY_DIP :: nat where "PINKY_DIP = 19"
definition PINKY_TIP :: nat where "PINKY_TIP = 20"

text \<open>\<open>interface Point { x: number; y: number; z?: number }\<close>\<close>

record Point =
  x :: real
  y :: real
  z :: "real option"

type_synonym Landmark = Point
type_synonym LandmarkList = "Landmark list"

text \<open>
  \<open>type Gesture = 'swipe-left' | 'swipe-right' | 'swipe-up' | 'fist' | 'none'\<close>, and the
  directions \<open>'left' | 'right' | 'up'\<close>; a direction that may be \<open>null\<close> is a
  \<open>Direction option\<close>.
\<close>

datatype Gesture = SwipeLeft | SwipeRight | SwipeUp | Fist | NoGesture

datatype Direction = Left | Right | Up

definition SWIPE_THRESHOLD :: real where "SWIPE_THRESHOLD = 0.06"
definition SWIPE_FRAME_THRESHOLD :: real where "SWIPE_FRAME_THRESHOLD = 0.015"
definition FIST_THRESHOLD :: real where "FIST_THRESHOLD = 0.07"
definition OPEN_THRESHOLD :: real where "OPEN_THRESHOLD = 0.05"

section \<open>Geometric classifiers\<close>

text \<open>\<open>landmarks[idx]\<close>: the element, or \<open>undefined\<close> (here \<open>None\<close>) past the end.\<close>

definition landmark_at :: "LandmarkList \<Rightarrow> nat \<Rightarrow> Landmark option" where
  "landmark_at landmarks idx =
     (if idx < length landmarks then Some (landmarks ! idx) else None)"

text \<open>\<open>mcp.y - tip.y\<close>, which throws when either landmark is \<open>undefined\<close>.\<close>

definition yDistance :: "LandmarkList \<Rightarrow> nat \<Rightarrow> nat \<Rightarrow> error + real" where
  "yDistance landmarks tipIndex mcpIndex =
     (case landmark_at landmarks mcpIndex of
        None \<Rightarrow> Inl TypeError
      | Some mcp \<Rightarrow>
          (case landmark_at landmarks tipIndex of
             None \<Rightarrow> Inl TypeError
           | Some tip \<Rightarrow> Inr (y mcp - y tip)))"

definition isFingerClosed :: "LandmarkList \<Rightarrow> nat \<Rightarrow> nat \<Rightarrow> error + bool" where
  "isFingerClosed landmarks tipIndex mcpIndex =
     bind_result (yDistance landmarks tipIndex mcpIndex)
       (\<lambda>d. Inr (d < FIST_THRESHOLD))"

definition isFist :: "LandmarkList option \<Rightarrow> error + bool" where
  "isFist landmarks =
     (case landmarks of
        None \<Rightarrow> Inr False
      | Some ls \<Rightarrow>
          if length ls < 21 then Inr False
          else
            bind_result (isFingerClosed ls INDEX_TIP INDEX_MCP) (\<lambda>indexClosed.
            bind_result (isFingerClosed ls MIDDLE_TIP MIDDLE_MCP) (\<lambda>middleClosed.
            bind_result (isFingerClosed ls RING_TIP RING_MCP) (\<lambda>ringClosed.
            bind_result (isFingerClosed ls PINKY_TIP PINKY_MCP) (\<lambda>pinkyClosed.
              Inr (indexClosed \<and> middleClosed \<and> ringClosed \<and> pinkyClosed))))))"

definition isPalmOpen :: "LandmarkList option \<Rightarrow> error + bool" where
  "isPalmOpen landmarks =
     (case landmarks of
        None \<Rightarrow> Inr False
      | Some ls \<Rightarrow>
          if length ls < 21 then Inr False
          else
            bind_result (yDistance ls INDEX_TIP INDEX_MCP) (\<lambda>dIndex.
            bind_result (yDistance ls MIDDLE_TIP MIDDLE_MCP) (\<lambda>dMiddle.
            bind_result (yDistance ls RING_TIP RING_MCP) (\<lambda>dRing.
            bind_result (yDistance ls PINKY_TIP PINKY_MCP) (\<lambda>dPinky.
              let indexOpen = dIndex > OPEN_THRESHOLD;
                  middleOpen = dMiddle > OPEN_THRESHOLD;
                  ringOpen = dRing > OPEN_THRESHOLD;
                  pinkyOpen = dPinky > OPEN_THRESHOLD;
                  openCount = length (filter id [indexOpen, middleOpen, ringOpen, pinkyOpen])
              in Inr (openCount \<ge> 3))))))"

text \<open>
  The loop of \<open>getPalmCenter\<close> over \<open>mcpIndices\<close>, with the running sums \<open>sumX\<close> and
  \<open>sumY\<close> as the accumulator.
\<close>

fun sumLandmarks :: "LandmarkList \<Rightarrow> nat list \<Rightarrow> real \<times> real \<Rightarrow> error + real \<times> real" where
  "sumLandmarks landmarks [] acc = Inr acc"
| "sumLandmarks landmarks (idx # rest) (sumX, sumY) =
     (case landmark_at landmarks idx of
        None \<Rightarrow> Inl TypeError
      | Some p \<Rightarrow> sumLandmarks landmarks rest (sumX + x p, sumY + y p))"

definition mcpIndices :: "nat list" where
  "mcpIndices = [WRIST, INDEX_MCP, MIDDLE_MCP, RING_MCP, PINKY_MCP]"

definition getPalmCenter :: "LandmarkList option \<Rightarrow> error + Point" where
  "getPalmCenter landmarks =
     (case landmarks of
        None \<Rightarrow> Inr \<lparr>x = 0, y = 0, z = None\<rparr>
      | Some ls \<Rightarrow>
          if length ls < 21 then Inr \<lparr>x = 0, y = 0, z = None\<rparr>
          else
            bind_result (sumLandmarks ls mcpIndices (0, 0)) (\<lambda>(sumX, sumY).
              Inr \<lparr>x = sumX / real (length mcpIndices),
                   y = sumY / real (length mcpIndices),
                   z = None\<rparr>))"

section \<open>Motion: single-step direction and the swipe tracker\<close>

definition getSwipeDirection :: "Point \<Rightarrow> Point \<Rightarrow> Direction option" where
  "getSwipeDirection currentCenter previousCenter =
     (let deltaX = x currentCenter - x previousCenter;
          deltaY = y currentCenter - y previousCenter
      in if deltaY < - SWIPE_FRAME_THRESHOLD then Some Up
         else if deltaX > SWIPE_FRAME_THRESHOLD then Some Left
         else if deltaX < - SWIPE_FRAME_THRESHOLD then Some Right
         else None)"

text \<open>
  The class \<open>SwipeTracker\<close>.  Its fields are the state; \<open>frameCount\<close> only ever holds
  integers (it starts at 0 and is incremented or zeroed), so it is an \<open>int\<close>.  The read-only
  field \<open>maxFrames\<close> is the constant 10.  A method returns its result together with the
  updated object.
\<close>

record SwipeTracker =
  accumulatedX :: real
  accumulatedY :: real
  frameCount :: int
  lastDirection :: "Direction option"

definition maxFrames :: int where "maxFrames = 10"

definition newSwipeTracker :: SwipeTracker where
  "newSwipeTracker =
     \<lparr>accumulatedX = 0, accumulatedY = 0, frameCount = 0, lastDirection = None\<rparr>"

definition SwipeTracker_reset :: "SwipeTracker \<Rightarrow> SwipeTracker" where
  "SwipeTracker_reset tr =
     tr\<lparr>accumulatedX := 0, accumulatedY := 0, frameCount := 0, lastDirection := None\<rparr>"

definition track :: "SwipeTracker \<Rightarrow> Point \<Rightarrow> Point \<Rightarrow> Direction option \<times> SwipeTracker" where
  "track tr currentCenter previousCenter =
     (let deltaX = x currentCenter - x previousCenter;
          deltaY = y currentCenter - y previousCenter;
          currentDir =
            (if \<bar>deltaY\<bar> > \<bar>deltaX\<bar> \<and> deltaY < 0 then Some Up
             else if deltaX > 0 then Some Left
             else if deltaX < 0 then Some Right
             else None);
          tr1 = (if lastDirection tr \<noteq> None \<and> currentDir \<noteq> None
                    \<and> currentDir \<noteq> lastDirection tr
                 then SwipeTracker_reset tr else tr);
          tr2 = tr1\<lparr>lastDirection := currentDir\<rparr>;
          tr3 = tr2\<lparr>accumulatedX := accumulatedX tr2 + deltaX\<rparr>;
          tr4 = tr3\<lparr>accumulatedY := accumulatedY tr3 + deltaY\<rparr>;
          tr5 = tr4\<lparr>frameCount := frameCount tr4 + 1\<rparr>
      in if accumulatedY tr5 < - SWIPE_THRESHOLD then (Some Up, SwipeTracker_reset tr5)
         else if \<bar>accumulatedX tr5\<bar> > SWIPE_THRESHOLD then
           (let result = (if accumulatedX tr5 > 0 then Left else Right)
            in (Some result, SwipeTracker_reset tr5))
         else if frameCount tr5 \<ge> maxFrames then (None, SwipeTracker_reset tr5)
         else (None, tr5))"

text \<open>A call of one of the two public methods, and a sequence of calls on a fresh tracker.\<close>

datatype TrackerCall = CallTrack Point Point | CallReset

fun callTracker :: "SwipeTracker \<Rightarrow> TrackerCall \<Rightarrow> SwipeTracker" where
  "callTracker tr (CallTrack currentCenter previousCenter) =
     snd (track tr currentCenter previousCenter)"
| "callTracker tr CallReset = SwipeTracker_reset tr"

definition runTracker :: "TrackerCall list \<Rightarrow> SwipeTracker" where
  "runTracker calls = foldl callTracker newSwipeTracker calls"

text \<open>The bounds that hold of every reachable tracker state.\<close>

definition trackerInvariant :: "SwipeTracker \<Rightarrow> bool" where
  "trackerInvariant tr \<longleftrightarrow>
     0 \<le> frameCount tr \<and> frameCount tr \<le> 9 \<and>
     \<bar>accumulatedX tr\<bar> \<le> 0.06 \<and> accumulatedY tr \<ge> - 0.06"

section \<open>The dispatcher\<close>

definition detectGesture :: "LandmarkList option \<Rightarrow> LandmarkList option \<Rightarrow> error + Gesture" where
  "detectGesture landmarks previousLandmarks =
     (case landmarks of
        None \<Rightarrow> Inr NoGesture
      | Some ls \<Rightarrow>
          if length ls < 21 then Inr NoGesture
          else
            bind_result (isFist landmarks) (\<lambda>fistNow.
              if fistNow then Inr Fist
              else
                (case previousLandmarks of
                   None \<Rightarrow> Inr NoGesture
                 | Some prev \<Rightarrow>
                     if length prev \<ge> 21 then
                       bind_result (getPalmCenter landmarks) (\<lambda>currentCenter.
                       bind_result (getPalmCenter previousLandmarks) (\<lambda>previousCenter.
                         (case getSwipeDirection currentCenter previousCenter of
                            Some Up \<Rightarrow> Inr SwipeUp
                          | Some Left \<Rightarrow> Inr SwipeLeft
                          | Some Right \<Rightarrow> Inr SwipeRight
                          | None \<Rightarrow> Inr NoGesture)))
                     else Inr NoGesture)))"

section \<open>The gesture state manager\<close>

text \<open>
  The class \<open>GestureStateManager\<close>.  \<open>processGesture\<close> reads the clock once
  (\<open>Date.now()\<close>); the reading is the parameter \<open>now\<close>.  The method returns the emitted
  gesture (\<open>None\<close> for \<open>null\<close>) and the updated object.
\<close>

record GestureStateManager =
  lastGesture :: Gesture
  gestureStartTime :: real
  cooldownMs :: real

definition newGestureStateManager :: "real \<Rightarrow> GestureStateManager" where
  "newGestureStateManager cooldown =
     \<lparr>lastGesture = NoGesture, gestureStartTime = 0, cooldownMs = cooldown\<rparr>"

definition processGesture ::
  "GestureStateManager \<Rightarrow> Gesture \<Rightarrow> real \<Rightarrow> Gesture option \<times> GestureStateManager" where
  "processGesture mgr gesture now =
     (if gesture = lastGesture mgr \<and> gesture \<noteq> NoGesture then (None, mgr)
      else if now - gestureStartTime mgr < cooldownMs mgr \<and> gesture \<noteq> NoGesture then (None, mgr)
      else if gesture \<noteq> NoGesture then
        (Some gesture, mgr\<lparr>lastGesture := gesture, gestureStartTime := now\<rparr>)
      else if gesture = NoGesture \<and> lastGesture mgr \<noteq> NoGesture then
        (None, mgr\<lparr>lastGesture := NoGesture\<rparr>)
      else (None, mgr))"

definition GestureStateManager_reset :: "GestureStateManager \<Rightarrow> GestureStateManager" where
  "GestureStateManager_reset mgr = mgr\<lparr>lastGesture := NoGesture, gestureStartTime := 0\<rparr>"

text \<open>A stream of raw gestures with their clock readings, fed to one manager in order.\<close>

fun processAll ::
  "GestureStateManager \<Rightarrow> (Gesture \<times> real) list \<Rightarrow> Gesture option list \<times> GestureStateManager" where
  "processAll mgr [] = ([], mgr)"
| "processAll mgr ((gesture, now) # rest) =
     (let (out, mgr1) = processGesture mgr gesture now;
          (outs, mgr2) = processAll mgr1 rest
      in (out # outs, mgr2))"

section \<open>The step algorithm in the words of the specification\<close>

text \<open>
  The instantaneous dominant direction of a step (\<open>up\<close> iff \<open>|\<Delta>y| > |\<Delta>x|\<close> and
  \<open>\<Delta>y < 0\<close>; else \<open>left\<close> iff \<open>\<Delta>x > 0\<close>; else \<open>right\<close> iff \<open>\<Delta>x < 0\<close>; else none).
\<close>

definition spec_instantaneousDirection :: "real \<Rightarrow> real \<Rightarrow> Direction option" where
  "spec_instantaneousDirection dx dy =
     (if \<bar>dy\<bar> > \<bar>dx\<bar> \<and> dy < 0 then Some Up
      else if dx > 0 then Some Left
      else if dx < 0 then Some Right
      else None)"

text \<open>
  The same sign and priority rules with a threshold \<open>t\<close> in place of 0, which is how the
  specification describes the dispatcher's single-step direction.
\<close>

definition spec_singleStepDirection :: "real \<Rightarrow> Point \<Rightarrow> Point \<Rightarrow> Direction option" where
  "spec_singleStepDirection t currentCenter previousCenter =
     (let dx = x currentCenter - x previousCenter;
          dy = y currentCenter - y previousCenter
      in if \<bar>dy\<bar> > \<bar>dx\<bar> \<and> dy < - t then Some Up
         else if dx > t then Some Left
         else if dx < - t then Some Right
         else None)"

text \<open>
  The step algorithm of the motion tracker as the specification words it: a reversal zeroes
  the accumulator, the delta is integrated and the frame counted, then the vertical
  threshold, the horizontal threshold and the frame limit are checked in this order; an
  emission and the frame limit zero all state.
\<close>

definition spec_track :: "SwipeTracker \<Rightarrow> Point \<Rightarrow> Point \<Rightarrow> Direction option \<times> SwipeTracker" where
  "spec_track tr currentCenter previousCenter =
     (let dx = x currentCenter - x previousCenter;
          dy = y currentCenter - y previousCenter;
          dir = spec_instantaneousDirection dx dy;
          reversal = (case (lastDirection tr, dir) of
                        (Some recorded, Some new) \<Rightarrow> new \<noteq> recorded
                      | _ \<Rightarrow> False);
          sumX = (if reversal then 0 else accumulatedX tr) + dx;
          sumY = (if reversal then 0 else accumulatedY tr) + dy;
          frames = (if reversal then 0 else frameCount tr) + 1
      in if sumY < - 0.06 then (Some Up, newSwipeTracker)
         else if \<bar>sumX\<bar> > 0.06 then (Some (if sumX > 0 then Left else Right), newSwipeTracker)
         else if frames \<ge> 10 then (None, newSwipeTracker)
         else (None, \<lparr>accumulatedX = sumX, accumulatedY = sumY, frameCount = frames,
                      lastDirection = dir\<rparr>))"

section \<open>Frames used as concrete inputs\<close>

text \<open>
  The fixtures of the module's test file: \<open>createLandmarks\<close> fills 21 landmarks with
  \<open>{x: 0.5, y: 0.5, z: 0}\<close> and overrides some of them with points that have no \<open>z\<close>.
\<close>

definition defaultLandmark :: Point where
  "defaultLandmark = \<lparr>x = 0.5, y = 0.5, z = Some 0\<rparr>"

definition point :: "real \<Rightarrow> real \<Rightarrow> Point" where
  "point a b = \<lparr>x = a, y = b, z = None\<rparr>"

definition openPalmLandmarks :: LandmarkList where
  "openPalmLandmarks =
     [point 0.5 0.8, defaultLandmark, defaultLandmark, defaultLandmark, defaultLandmark,
      point 0.4 0.6, defaultLandmark, defaultLandmark, point 0.35 0.3,
      point 0.5 0.55, defaultLandmark, defaultLandmark, point 0.5 0.25,
      point 0.6 0.6, defaultLandmark, defaultLandmark, point 0.65 0.3,
      point 0.7 0.65, defaultLandmark, defaultLandmark, point 0.75 0.35]"

definition fistLandmarks :: LandmarkList where
  "fistLandmarks =
     [point 0.5 0.8, defaultLandmark, defaultLandmark, defaultLandmark, defaultLandmark,
      point 0.4 0.5, defaultLandmark, defaultLandmark, point 0.42 0.52,
      point 0.5 0.48, defaultLandmark, defaultLandmark, point 0.5 0.55,
      point 0.6 0.5, defaultLandmark, defaultLandmark, point 0.58 0.55,
      point 0.7 0.52, defaultLandmark, defaultLandmark, point 0.68 0.58]"

text \<open>The current frame of the test \<open>should return "swipe-left" when hand moves right\<close>.\<close>

definition movedRightLandmarks :: LandmarkList where
  "movedRightLandmarks =
     [point 0.7 0.8, defaultLandmark, defaultLandmark, defaultLandmark, defaultLandmark,
      point 0.6 0.6, defaultLandmark, defaultLandmark, point 0.55 0.3,
      point 0.7 0.55, defaultLandmark, defaultLandmark, point 0.7 0.25,
      point 0.8 0.6, defaultLandmark, defaultLandmark, point 0.85 0.3,
      point 0.9 0.65, defaultLandmark, defaultLandmark, point 0.95 0.35]"

text \<open>A frame whose four non-thumb fingertips are each 0.06 above their knuckle.\<close>

definition halfOpenLandmarks :: LandmarkList where
  "halfOpenLandmarks =
     [point 0.5 0.8, defaultLandmark, defaultLandmark, defaultLandmark, defaultLandmark,
      point 0.4 0.5, defaultLandmark, defaultLandmark, point 0.4 0.44,
      point 0.5 0.5, defaultLandmark, defaultLandmark, point 0.5 0.44,
      point 0.6 0.5, defaultLandmark, defaultLandmark, point 0.6 0.44,
      point 0.7 0.5, defaultLandmark, defaultLandmark, point 0.7 0.44]"

text \<open>The fist fixture followed by one more landmark: a frame of 22 points.\<close>

definition fist22Landmarks :: LandmarkList where
  "fist22Landmarks = fistLandmarks @ [defaultLandmark]"

text \<open>
  Two small steps one way, a reset, and a step back: a call sequence that leaves the
  tracker with one frame counted and \<open>-0.02\<close> accumulated.
\<close>

definition wobbleCalls :: "TrackerCall list" where
  "wobbleCalls =
     [CallTrack (point 0.52 0.5) (point 0.5 0.5), CallTrack (point 0.55 0.5) (point 0.52 0.5),
      CallReset, CallTrack (point 0.53 0.5) (point 0.55 0.5)]"

section \<open>Helper facts\<close>

lemmas LANDMARK_defs =
  WRIST_def INDEX_MCP_def INDEX_TIP_def MIDDLE_MCP_def MIDDLE_TIP_def
  RING_MCP_def RING_TIP_def PINKY_MCP_def PINKY_TIP_def

lemmas fixture_defs =
  openPalmLandmarks_def fistLandmarks_def movedRightLandmarks_def halfOpenLandmarks_def
  fist22Landmarks_def defaultLandmark_def point_def

lemma landmark_at_valid:
  "21 \<le> length ls \<Longrightarrow> idx < 21 \<Longrightarrow> landmark_at ls idx = Some (ls ! idx)"
  by (simp add: landmark_at_def)

lemma yDistance_valid:
  "21 \<le> length ls \<Longrightarrow> tipIndex < 21 \<Longrightarrow> mcpIndex < 21 \<Longrightarrow>
   yDistance ls tipIndex mcpIndex = Inr (y (ls ! mcpIndex) - y (ls ! tipIndex))"
  by (simp add: yDistance_def landmark_at_valid)

lemma isFist_valid:
  "21 \<le> length ls \<Longrightarrow>
   isFist (Some ls) =
     Inr (y (ls ! 5) - y (ls ! 8) < 0.07 \<and> y (ls ! 9) - y (ls ! 12) < 0.07 \<and>
          y (ls ! 13) - y (ls ! 16) < 0.07 \<and> y (ls ! 17) - y (ls ! 20) < 0.07)"
  by (simp add: isFist_def isFingerClosed_def bind_result_def yDistance_valid
      LANDMARK_defs FIST_THRESHOLD_def)

lemma count_true4:
  "(3 \<le> length (filter id [a, b, c, d])) =
   ((a \<and> b \<and> c) \<or> (a \<and> b \<and> d) \<or> (a \<and> c \<and> d) \<or> (b \<and> c \<and> d))"
  by (cases a; cases b; cases c; cases d) simp_all

lemma isPalmOpen_valid:
  "21 \<le> length ls \<Longrightarrow>
   isPalmOpen (Some ls) =
     Inr (3 \<le> length (filter id
       [y (ls ! 5) - y (ls ! 8) > 0.05, y (ls ! 9) - y (ls ! 12) > 0.05,
        y (ls ! 13) - y (ls ! 16) > 0.05, y (ls ! 17) - y (ls ! 20) > 0.05]))"
  by (simp add: isPalmOpen_def bind_result_def yDistance_valid LANDMARK_defs
      OPEN_THRESHOLD_def Let_def del: filter.simps)

lemma getPalmCenter_valid:
  "21 \<le> length ls \<Longrightarrow>
   getPalmCenter (Some ls) =
     Inr \<lparr>x = (x (ls ! 0) + x (ls ! 5) + x (ls ! 9) + x (ls ! 13) + x (ls ! 17)) / 5,
          y = (y (ls ! 0) + y (ls ! 5) + y (ls ! 9) + y (ls ! 13) + y (ls ! 17)) / 5,
          z = None\<rparr>"
  by (simp add: getPalmCenter_def bind_result_def mcpIndices_def landmark_at_valid
      LANDMARK_defs)

lemma isFist_total: "\<exists>b. isFist frame = Inr b"
proof (cases frame)
  case None
  then show ?thesis by (auto simp: isFist_def)
next
  case (Some ls)
  then show ?thesis
    by (cases "length ls < 21") (auto simp: isFist_valid not_less, auto simp: isFist_def)
qed

lemma isPalmOpen_total: "\<exists>b. isPalmOpen frame = Inr b"
proof (cases frame)
  case None
  then show ?thesis by (auto simp: isPalmOpen_def)
next
  case (Some ls)
  then show ?thesis
    by (cases "length ls < 21")
       (auto simp: isPalmOpen_valid not_less, auto simp: isPalmOpen_def)
qed

lemma getPalmCenter_total: "\<exists>c. getPalmCenter frame = Inr c"
proof (cases frame)
  case None
  then show ?thesis by (auto simp: getPalmCenter_def)
next
  case (Some ls)
  then show ?thesis
    by (cases "length ls < 21")
       (auto simp: getPalmCenter_valid not_less, auto simp: getPalmCenter_def)
qed

text \<open>No input makes the dispatcher throw.\<close>

lemma detectGesture_total: "\<exists>g. detectGesture frame previous = Inr g"
  by (auto simp: detectGesture_def bind_result_def isFist_valid getPalmCenter_valid not_less
      split: option.splits Direction.splits)

text \<open>Landmarks past the twenty-first are never read.\<close>

lemma isFist_take: "21 \<le> length ls \<Longrightarrow> isFist (Some ls) = isFist (Some (take 21 ls))"
  by (simp add: isFist_valid)

lemma isPalmOpen_take:
  "21 \<le> length ls \<Longrightarrow> isPalmOpen (Some ls) = isPalmOpen (Some (take 21 ls))"
  by (simp add: isPalmOpen_valid del: filter.simps)

lemma getPalmCenter_take:
  "21 \<le> length ls \<Longrightarrow> getPalmCenter (Some ls) = getPalmCenter (Some (take 21 ls))"
  by (simp add: getPalmCenter_valid)

lemma detectGesture_take_current:
  "21 \<le> length ls \<Longrightarrow>
   detectGesture (Some ls) previous = detectGesture (Some (take 21 ls)) previous"
  by (cases previous)
     (auto simp: detectGesture_def bind_result_def isFist_valid getPalmCenter_valid)

lemma detectGesture_take_previous:
  "21 \<le> length ps \<Longrightarrow>
   detectGesture frame (Some ps) = detectGesture frame (Some (take 21 ps))"
  by (cases frame)
     (auto simp: detectGesture_def bind_result_def isFist_valid getPalmCenter_valid not_less)

lemma getSwipeDirection_unfold:
  "getSwipeDirection c p =
     (if y c - y p < - 0.015 then Some Up
      else if x c - x p > 0.015 then Some Left
      else if x c - x p < - 0.015 then Some Right
      else None)"
  by (simp add: getSwipeDirection_def SWIPE_FRAME_THRESHOLD_def)

lemma reset_new: "SwipeTracker_reset tr = newSwipeTracker"
  by (cases tr) (simp add: SwipeTracker_reset_def newSwipeTracker_def)

text \<open>
  \<open>track\<close> with the intermediate objects folded away: what is added to, and what comes
  out.
\<close>

lemma track_unfold:
  "track tr c p =
    (let dx = x c - x p; dy = y c - y p;
         dir = (if \<bar>dy\<bar> > \<bar>dx\<bar> \<and> dy < 0 then Some Up else if dx > 0 then Some Left
                else if dx < 0 then Some Right else None);
         reversal = (lastDirection tr \<noteq> None \<and> dir \<noteq> None \<and> dir \<noteq> lastDirection tr);
         sumX = (if reversal then 0 else accumulatedX tr) + dx;
         sumY = (if reversal then 0 else accumulatedY tr) + dy;
         frames = (if reversal then 0 else frameCount tr) + 1
     in if sumY < - 0.06 then (Some Up, newSwipeTracker)
        else if \<bar>sumX\<bar> > 0.06 then (Some (if sumX > 0 then Left else Right), newSwipeTracker)
        else if frames \<ge> 10 then (None, newSwipeTracker)
        else (None, \<lparr>accumulatedX = sumX, accumulatedY = sumY, frameCount = frames,
                     lastDirection = dir\<rparr>))"
proof -
  define dx where "dx = x c - x p"
  define dy where "dy = y c - y p"
  define dir where
    "dir = (if \<bar>dy\<bar> > \<bar>dx\<bar> \<and> dy < 0 then Some Up else if dx > 0 then Some Left
            else if dx < 0 then Some Right else None)"
  define reversal where
    "reversal = (lastDirection tr \<noteq> None \<and> dir \<noteq> None \<and> dir \<noteq> lastDirection tr)"
  have "track tr c p =
     (let tr1 = (if reversal then SwipeTracker_reset tr else tr);
          tr2 = tr1\<lparr>lastDirection := dir\<rparr>;
          tr3 = tr2\<lparr>accumulatedX := accumulatedX tr2 + dx\<rparr>;
          tr4 = tr3\<lparr>accumulatedY := accumulatedY tr3 + dy\<rparr>;
          tr5 = tr4\<lparr>frameCount := frameCount tr4 + 1\<rparr>
      in if accumulatedY tr5 < - SWIPE_THRESHOLD then (Some Up, SwipeTracker_reset tr5)
         else if \<bar>accumulatedX tr5\<bar> > SWIPE_THRESHOLD then
           (let result = (if accumulatedX tr5 > 0 then Left else Right)
            in (Some result, SwipeTracker_reset tr5))
         else if frameCount tr5 \<ge> maxFrames then (None, SwipeTracker_reset tr5)
         else (None, tr5))"
    unfolding track_def reversal_def dir_def dx_def dy_def Let_def by (rule refl)
  also have "\<dots> =
     (let sumX = (if reversal then 0 else accumulatedX tr) + dx;
          sumY = (if reversal then 0 else accumulatedY tr) + dy;
          frames = (if reversal then 0 else frameCount tr) + 1
      in if sumY < - 0.06 then (Some Up, newSwipeTracker)
         else if \<bar>sumX\<bar> > 0.06 then (Some (if sumX > 0 then Left else Right), newSwipeTracker)
         else if frames \<ge> 10 then (None, newSwipeTracker)
         else (None, \<lparr>accumulatedX = sumX, accumulatedY = sumY, frameCount = frames,
                      lastDirection = dir\<rparr>))"
    by (cases tr; cases reversal)
       (simp_all add: Let_def SwipeTracker_reset_def newSwipeTracker_def SWIPE_THRESHOLD_def
          maxFrames_def)
  finally show ?thesis
    unfolding reversal_def dir_def dx_def dy_def Let_def .
qed

lemma trackerInvariant_new: "trackerInvariant newSwipeTracker"
  by (simp add: trackerInvariant_def newSwipeTracker_def)

lemma finish_invariant:
  "0 \<le> frames \<Longrightarrow>
   trackerInvariant (snd (if sumY < - 0.06 then (r1, newSwipeTracker)
        else if \<bar>sumX\<bar> > 0.06 then (r2, newSwipeTracker)
        else if frames \<ge> 10 then (r3, newSwipeTracker)
        else (r4, \<lparr>accumulatedX = sumX, accumulatedY = sumY, frameCount = frames,
                     lastDirection = dir\<rparr>)))"
  by (simp add: trackerInvariant_def newSwipeTracker_def)

lemma finish_zeroed:
  "fst (if (c1::bool) then (Some r1, newSwipeTracker)
        else if c2 then (Some r2, newSwipeTracker)
        else if c3 then (None, newSwipeTracker)
        else (None, tr')) \<noteq> None \<Longrightarrow>
   snd (if c1 then (Some r1, newSwipeTracker)
        else if c2 then (Some r2, newSwipeTracker)
        else if c3 then (None, newSwipeTracker)
        else (None, tr')) = newSwipeTracker"
  by (simp split: if_splits)

lemma trackerInvariant_track:
  "0 \<le> frameCount tr \<Longrightarrow> trackerInvariant (snd (track tr c p))"
  unfolding track_unfold Let_def
  by (rule finish_invariant) simp

lemma trackerInvariant_call:
  assumes "trackerInvariant tr"
  shows "trackerInvariant (callTracker tr call)"
proof (cases call)
  case (CallTrack c p)
  from assms have "0 \<le> frameCount tr"
    by (simp add: trackerInvariant_def)
  then show ?thesis
    by (simp add: CallTrack trackerInvariant_track)
next
  case CallReset
  then show ?thesis
    by (simp add: reset_new trackerInvariant_new)
qed

lemma trackerInvariant_foldl:
  "trackerInvariant tr \<Longrightarrow> trackerInvariant (foldl callTracker tr calls)"
  by (induction calls arbitrary: tr) (simp_all add: trackerInvariant_call)

lemma track_emits_zeroed:
  "fst (track tr c p) \<noteq> None \<Longrightarrow> snd (track tr c p) = newSwipeTracker"
  unfolding track_unfold Let_def
  by (rule finish_zeroed)

lemma processGesture_same:
  "g \<noteq> NoGesture \<Longrightarrow> lastGesture m = g \<Longrightarrow> processGesture m g t = (None, m)"
  by (simp add: processGesture_def)

lemma processAll_same:
  "g \<noteq> NoGesture \<Longrightarrow> lastGesture m = g \<Longrightarrow>
   processAll m (map (\<lambda>t. (g, t)) ts) = (replicate (length ts) None, m)"
  by (induction ts) (simp_all add: processGesture_same)

lemma processGesture_emitted:
  "processGesture m g t = (Some g', m') \<Longrightarrow>
   g' = g \<and> g \<noteq> NoGesture \<and> m' = m\<lparr>lastGesture := g, gestureStartTime := t\<rparr>"
  by (auto simp: processGesture_def split: if_splits)

lemma processGesture_locked:
  "g' \<noteq> NoGesture \<Longrightarrow> g' = lastGesture m \<or> t - gestureStartTime m < cooldownMs m \<Longrightarrow>
   processGesture m g' t = (None, m)"
  by (auto simp: processGesture_def)

lemma processAll_locked:
  "\<forall>(g', t) \<in> set ins. g' \<noteq> NoGesture \<and>
       (g' = lastGesture m \<or> t - gestureStartTime m < cooldownMs m) \<Longrightarrow>
   processAll m ins = (replicate (length ins) None, m)"
  by (induction ins) (auto simp: processGesture_locked)

text \<open>
  What a fresh manager does when the clock reading is at least the cooldown.
\<close>

lemma processGesture_clock_past_cooldown:
  assumes "g \<noteq> NoGesture" and "g' \<noteq> NoGesture" and "g' \<noteq> g"
    and "cooldown \<le> t0" and "t1 - t0 < cooldown" and "cooldown \<le> t2"
  shows "processGesture (newGestureStateManager cooldown) g t0 =
           (Some g, \<lparr>lastGesture = g, gestureStartTime = t0, cooldownMs = cooldown\<rparr>) \<and>
         processGesture \<lparr>lastGesture = g, gestureStartTime = t0, cooldownMs = cooldown\<rparr> g t =
           (None, \<lparr>lastGesture = g, gestureStartTime = t0, cooldownMs = cooldown\<rparr>) \<and>
         processGesture \<lparr>lastGesture = g, gestureStartTime = t0, cooldownMs = cooldown\<rparr> g' t1 =
           (None, \<lparr>lastGesture = g, gestureStartTime = t0, cooldownMs = cooldown\<rparr>) \<and>
         processGesture
           (GestureStateManager_reset
              \<lparr>lastGesture = g, gestureStartTime = t0, cooldownMs = cooldown\<rparr>) g t2 =
           (Some g, \<lparr>lastGesture = g, gestureStartTime = t2, cooldownMs = cooldown\<rparr>)"
  using assms
  by (simp add: processGesture_def newGestureStateManager_def GestureStateManager_reset_def)

lemma reversal_spec:
  "(case (recordedDir, dir) of (Some recorded, Some new) \<Rightarrow> new \<noteq> recorded | _ \<Rightarrow> False)
    = (recordedDir \<noteq> None \<and> dir \<noteq> None \<and> dir \<noteq> recordedDir)"
  by (cases recordedDir; cases dir) auto

section \<open>The dispatcher's per-frame check\<close>

text \<open>
  Claim C1, as the code has it.  For a current frame of at least 21 landmarks that is not a
  fist and a previous frame of at least 21 landmarks, \<open>detectGesture\<close> maps the single-step
  direction of the two palm centers straight to a gesture: \<open>swipe-up\<close> when the center rose
  by more than 0.015, otherwise \<open>swipe-left\<close> when it moved by more than 0.015 in \<open>x\<close>,
  otherwise \<open>swipe-right\<close> when it moved by more than 0.015 against \<open>x\<close>, otherwise
  \<open>none\<close>.  The per-frame check therefore reports all three swipes itself.
\<close>

theorem detectGesture_per_frame:
  assumes "21 \<le> length current" and "21 \<le> length previous"
    and "isFist (Some current) = Inr False"
  shows "\<exists>c p. getPalmCenter (Some current) = Inr c \<and> getPalmCenter (Some previous) = Inr p \<and>
           detectGesture (Some current) (Some previous) =
             Inr (if y c - y p < - 0.015 then SwipeUp
                  else if x c - x p > 0.015 then SwipeLeft
                  else if x c - x p < - 0.015 then SwipeRight
                  else NoGesture)"
  using assms
  by (simp add: detectGesture_def bind_result_def getPalmCenter_valid getSwipeDirection_def
      SWIPE_FRAME_THRESHOLD_def Let_def)

text \<open>
  The theorem at the frames of the module's own test: the open palm, then the same hand
  0.2 further along \<open>x\<close>.
\<close>

theorem detectGesture_per_frame_witness:
  "\<exists>c p. getPalmCenter (Some movedRightLandmarks) = Inr c \<and>
         getPalmCenter (Some openPalmLandmarks) = Inr p \<and>
         detectGesture (Some movedRightLandmarks) (Some openPalmLandmarks) =
           Inr (if y c - y p < - 0.015 then SwipeUp
                else if x c - x p > 0.015 then SwipeLeft
                else if x c - x p < - 0.015 then SwipeRight
                else NoGesture)"
proof -
  have a: "21 \<le> length movedRightLandmarks"
    by (simp add: fixture_defs)
  have b: "21 \<le> length openPalmLandmarks"
    by (simp add: fixture_defs)
  have c: "isFist (Some movedRightLandmarks) = Inr False"
    by (simp add: isFist_valid fixture_defs)
  show ?thesis
    by (rule detectGesture_per_frame [OF a b c])
qed

text \<open>
  Claim C1 as the specification states it (the per-frame check never returns \<open>swipe-left\<close>
  or \<open>swipe-right\<close>) fails at these two valid frames: the current frame is not a fist and
  the check returns \<open>swipe-left\<close>.
\<close>

theorem per_frame_swipe_left_counterexample:
  "length movedRightLandmarks = 21 \<and> length openPalmLandmarks = 21 \<and>
   isFist (Some movedRightLandmarks) = Inr False \<and>
   detectGesture (Some movedRightLandmarks) (Some openPalmLandmarks) = Inr SwipeLeft"
  by (simp add: isFist_valid getPalmCenter_valid detectGesture_def bind_result_def
      getSwipeDirection_def SWIPE_FRAME_THRESHOLD_def fixture_defs)

section \<open>Invalid frames\<close>

text \<open>
  Claim C2, as the code has it.  A frame that is \<open>null\<close> or has fewer than 21 landmarks is
  treated as no hand and nothing throws: \<open>isFist\<close> and \<open>isPalmOpen\<close> return \<open>false\<close>,
  \<open>getPalmCenter\<close> returns \<open>{x: 0, y: 0}\<close> and \<open>detectGesture\<close> returns \<open>none\<close>,
  whatever the previous frame.  A frame of more than 21 landmarks is not rejected: each
  of the four functions gives on it what it gives on its first 21 landmarks, as current
  frame and as previous frame.
\<close>

theorem invalid_frame_no_hand:
  "(frame = None \<or> (\<exists>short. frame = Some short \<and> length short < 21) \<longrightarrow>
      isFist frame = Inr False \<and> isPalmOpen frame = Inr False \<and>
      getPalmCenter frame = Inr \<lparr>x = 0, y = 0, z = None\<rparr> \<and>
      detectGesture frame previous = Inr NoGesture) \<and>
   (21 \<le> length ls \<longrightarrow>
      isFist (Some ls) = isFist (Some (take 21 ls)) \<and>
      isPalmOpen (Some ls) = isPalmOpen (Some (take 21 ls)) \<and>
      getPalmCenter (Some ls) = getPalmCenter (Some (take 21 ls)) \<and>
      detectGesture (Some ls) previous = detectGesture (Some (take 21 ls)) previous \<and>
      detectGesture frame (Some ls) = detectGesture frame (Some (take 21 ls)))"
proof -
  have short: "frame = None \<or> (\<exists>short. frame = Some short \<and> length short < 21) \<longrightarrow>
      isFist frame = Inr False \<and> isPalmOpen frame = Inr False \<and>
      getPalmCenter frame = Inr \<lparr>x = 0, y = 0, z = None\<rparr> \<and>
      detectGesture frame previous = Inr NoGesture"
    by (auto simp: isFist_def isPalmOpen_def getPalmCenter_def detectGesture_def)
  have long: "21 \<le> length ls \<longrightarrow>
      isFist (Some ls) = isFist (Some (take 21 ls)) \<and>
      isPalmOpen (Some ls) = isPalmOpen (Some (take 21 ls)) \<and>
      getPalmCenter (Some ls) = getPalmCenter (Some (take 21 ls)) \<and>
      detectGesture (Some ls) previous = detectGesture (Some (take 21 ls)) previous \<and>
      detectGesture frame (Some ls) = detectGesture frame (Some (take 21 ls))"
  proof (intro impI conjI)
    assume l: "21 \<le> length ls"
    show "isFist (Some ls) = isFist (Some (take 21 ls))"
      by (rule isFist_take [OF l])
    show "isPalmOpen (Some ls) = isPalmOpen (Some (take 21 ls))"
      by (rule isPalmOpen_take [OF l])
    show "getPalmCenter (Some ls) = getPalmCenter (Some (take 21 ls))"
      by (rule getPalmCenter_take [OF l])
    show "detectGesture (Some ls) previous = detectGesture (Some (take 21 ls)) previous"
      by (rule detectGesture_take_current [OF l])
    show "detectGesture frame (Some ls) = detectGesture frame (Some (take 21 ls))"
      by (rule detectGesture_take_previous [OF l])
  qed
  from short long show ?thesis ..
qed

text \<open>
  The theorem at the first ten landmarks of the fist fixture, as in the module's test, and
  at the fist fixture with a twenty-second landmark.
\<close>

theorem invalid_frame_no_hand_witness:
  "isFist (Some (take 10 fistLandmarks)) = Inr False \<and>
   isPalmOpen (Some (take 10 fistLandmarks)) = Inr False \<and>
   getPalmCenter (Some (take 10 fistLandmarks)) = Inr \<lparr>x = 0, y = 0, z = None\<rparr> \<and>
   detectGesture (Some (take 10 fistLandmarks)) (Some fist22Landmarks) = Inr NoGesture \<and>
   isFist (Some fist22Landmarks) = isFist (Some fistLandmarks) \<and>
   isPalmOpen (Some fist22Landmarks) = isPalmOpen (Some fistLandmarks) \<and>
   getPalmCenter (Some fist22Landmarks) = getPalmCenter (Some fistLandmarks) \<and>
   detectGesture (Some fist22Landmarks) (Some fist22Landmarks) =
     detectGesture (Some fistLandmarks) (Some fist22Landmarks)"
proof -
  have s: "length (take 10 fistLandmarks) < 21"
    by simp
  have l: "21 \<le> length fist22Landmarks"
    by (simp add: fist22Landmarks_def fistLandmarks_def)
  have t: "take 21 fist22Landmarks = fistLandmarks"
    by (simp add: fist22Landmarks_def fistLandmarks_def)
  note th = invalid_frame_no_hand
      [of "Some (take 10 fistLandmarks)" "Some fist22Landmarks" fist22Landmarks]
  have h: "Some (take 10 fistLandmarks) = None \<or>
      (\<exists>short. Some (take 10 fistLandmarks) = Some short \<and> length short < 21)"
    using s by simp
  note a = th [THEN conjunct1, THEN mp, OF h]
  note b = th [THEN conjunct2, THEN mp, OF l, unfolded t]
  from a b show ?thesis
    apply (elim conjE)
    apply (intro conjI)
           apply assumption+
    done
qed

text \<open>
  Claim C2 as the specification states it (every length other than 21 is invalid) fails
  for a longer frame: the guard is \<open>length < 21\<close>, so a frame of 22 landmarks is classified
  like any other hand.
\<close>

theorem other_length_counterexample:
  "length fist22Landmarks \<noteq> 21 \<and> isFist (Some fist22Landmarks) = Inr True \<and>
   detectGesture (Some fist22Landmarks) None = Inr Fist \<and>
   getPalmCenter (Some fist22Landmarks) = Inr \<lparr>x = 0.54, y = 0.56, z = None\<rparr>"
  by (simp add: isFist_valid getPalmCenter_valid detectGesture_def bind_result_def fixture_defs)

section \<open>The single-step direction\<close>

text \<open>
  Claim C3, as the code has it.  \<open>getSwipeDirection\<close> yields \<open>up\<close> exactly when \<open>\<Delta>y\<close> is
  below \<open>-0.015\<close>, whatever \<open>\<Delta>x\<close> is; otherwise \<open>left\<close> when \<open>\<Delta>x\<close> exceeds 0.015,
  \<open>right\<close> when \<open>\<Delta>x\<close> is below \<open>-0.015\<close>, and \<open>null\<close> otherwise.  It agrees with the
  rule that also asks for \<open>|\<Delta>y| > |\<Delta>x|\<close> exactly on the steps where an upward move
  beyond the threshold is also the dominant one.
\<close>

theorem getSwipeDirection_rules:
  "(getSwipeDirection c p = Some Up \<longleftrightarrow> y c - y p < - 0.015) \<and>
   (getSwipeDirection c p = Some Left \<longleftrightarrow> \<not> y c - y p < - 0.015 \<and> x c - x p > 0.015) \<and>
   (getSwipeDirection c p = Some Right \<longleftrightarrow> \<not> y c - y p < - 0.015 \<and> x c - x p < - 0.015) \<and>
   (getSwipeDirection c p = None \<longleftrightarrow> \<not> y c - y p < - 0.015 \<and> \<bar>x c - x p\<bar> \<le> 0.015) \<and>
   (getSwipeDirection c p = spec_singleStepDirection 0.015 c p \<longleftrightarrow>
      (y c - y p < - 0.015 \<longrightarrow> \<bar>y c - y p\<bar> > \<bar>x c - x p\<bar>))"
proof -
  define dx where "dx = x c - x p"
  define dy where "dy = y c - y p"
  have g: "getSwipeDirection c p =
     (if dy < - 0.015 then Some Up else if dx > 0.015 then Some Left
      else if dx < - 0.015 then Some Right else None)"
    by (simp add: getSwipeDirection_unfold dx_def dy_def)
  have s: "spec_singleStepDirection 0.015 c p =
     (if \<bar>dy\<bar> > \<bar>dx\<bar> \<and> dy < - 0.015 then Some Up else if dx > 0.015 then Some Left
      else if dx < - 0.015 then Some Right else None)"
    unfolding spec_singleStepDirection_def dx_def dy_def Let_def by (rule refl)
  have up: "getSwipeDirection c p = Some Up \<longleftrightarrow> dy < - 0.015"
    by (simp add: g)
  have left: "getSwipeDirection c p = Some Left \<longleftrightarrow> \<not> dy < - 0.015 \<and> dx > 0.015"
    by (simp add: g)
  have right: "getSwipeDirection c p = Some Right \<longleftrightarrow> \<not> dy < - 0.015 \<and> dx < - 0.015"
    by (auto simp: g)
  have none: "getSwipeDirection c p = None \<longleftrightarrow> \<not> dy < - 0.015 \<and> \<bar>dx\<bar> \<le> 0.015"
    by (auto simp: g abs_le_iff)
  have agree: "getSwipeDirection c p = spec_singleStepDirection 0.015 c p \<longleftrightarrow>
      (dy < - 0.015 \<longrightarrow> \<bar>dy\<bar> > \<bar>dx\<bar>)"
    unfolding g s by auto
  show ?thesis
    using up left right none agree by (simp add: dx_def dy_def)
qed

text \<open>The theorem at a step straight up by 0.2, where both rules say \<open>up\<close>.\<close>

theorem getSwipeDirection_rules_witness:
  "getSwipeDirection (point 0.5 0.3) (point 0.5 0.5) = Some Up \<and>
   getSwipeDirection (point 0.5 0.3) (point 0.5 0.5) =
     spec_singleStepDirection 0.015 (point 0.5 0.3) (point 0.5 0.5)"
proof -
  have rise: "y (point 0.5 0.3) - y (point 0.5 0.5) < - 0.015"
    by (simp add: point_def)
  have dominant: "\<bar>y (point 0.5 0.3) - y (point 0.5 0.5)\<bar> > \<bar>x (point 0.5 0.3) - x (point 0.5 0.5)\<bar>"
    by (simp add: point_def)
  from getSwipeDirection_rules [of "point 0.5 0.3" "point 0.5 0.5"] rise dominant
  show ?thesis by blast
qed

text \<open>
  Claim C3 as the specification states it (\<open>up\<close> only when \<open>|\<Delta>y| > |\<Delta>x|\<close>) fails at a
  step of \<open>\<Delta>x = 0.2\<close>, \<open>\<Delta>y = -0.02\<close>: the code answers \<open>up\<close>, the stated rule \<open>left\<close>.
\<close>

theorem single_step_dominance_counterexample:
  "getSwipeDirection (point 0.7 0.48) (point 0.5 0.5) = Some Up \<and>
   spec_singleStepDirection 0.015 (point 0.7 0.48) (point 0.5 0.5) = Some Left"
  by (simp add: getSwipeDirection_def spec_singleStepDirection_def SWIPE_FRAME_THRESHOLD_def
      point_def)

section \<open>The swipe tracker\<close>

text \<open>
  Claim C4.  For every tracker state and every pair of palm centers, \<open>track\<close> returns the
  result and the state of the specification's step algorithm: a recorded direction that
  the new non-none instantaneous direction differs from zeroes the accumulator first; the
  delta is added and the frame counted; then \<open>up\<close> is returned and all state zeroed when the
  accumulated \<open>\<Delta>y\<close> is below \<open>-0.06\<close>, else \<open>left\<close> or \<open>right\<close> (by the sign of the
  accumulated \<open>\<Delta>x\<close>) and all state zeroed when its magnitude exceeds 0.06, else all state
  is zeroed and \<open>null\<close> returned when the frame count has reached 10, else \<open>null\<close>.
\<close>

theorem track_refines_spec:
  "track tr currentCenter previousCenter = spec_track tr currentCenter previousCenter"
  unfolding track_unfold spec_track_def spec_instantaneousDirection_def reversal_spec Let_def
  by (rule refl)

text \<open>
  Claim C8.  After every sequence of \<open>track\<close> and \<open>reset\<close> calls on a fresh tracker, the
  frame count is between 0 and 9, the accumulated \<open>\<Delta>x\<close> is at most 0.06 in magnitude and
  the accumulated \<open>\<Delta>y\<close> is at least \<open>-0.06\<close>; and a further \<open>track\<close> that returns a
  direction leaves the sums and the frame count zero and no direction recorded.
\<close>

theorem swipeTracker_invariant:
  "0 \<le> frameCount (runTracker calls) \<and> frameCount (runTracker calls) \<le> 9 \<and>
   \<bar>accumulatedX (runTracker calls)\<bar> \<le> 0.06 \<and> accumulatedY (runTracker calls) \<ge> - 0.06 \<and>
   (fst (track (runTracker calls) c p) \<noteq> None \<longrightarrow>
      snd (track (runTracker calls) c p) =
        \<lparr>accumulatedX = 0, accumulatedY = 0, frameCount = 0, lastDirection = None\<rparr>)"
proof -
  have "trackerInvariant (runTracker calls)"
    unfolding runTracker_def by (rule trackerInvariant_foldl [OF trackerInvariant_new])
  moreover have "fst (track (runTracker calls) c p) \<noteq> None \<longrightarrow>
      snd (track (runTracker calls) c p) =
        \<lparr>accumulatedX = 0, accumulatedY = 0, frameCount = 0, lastDirection = None\<rparr>"
    using track_emits_zeroed [of "runTracker calls" c p] by (simp add: newSwipeTracker_def)
  ultimately show ?thesis
    by (simp add: trackerInvariant_def)
qed

text \<open>
  The theorem after the calls \<open>wobbleCalls\<close>, followed by a step of \<open>-0.06\<close> that takes the
  sum to \<open>-0.08\<close> and emits \<open>right\<close>.
\<close>

theorem swipeTracker_invariant_witness:
  "runTracker wobbleCalls =
     \<lparr>accumulatedX = - 0.02, accumulatedY = 0, frameCount = 1, lastDirection = Some Right\<rparr> \<and>
   fst (track (runTracker wobbleCalls) (point 0.47 0.5) (point 0.53 0.5)) = Some Right \<and>
   snd (track (runTracker wobbleCalls) (point 0.47 0.5) (point 0.53 0.5)) =
     \<lparr>accumulatedX = 0, accumulatedY = 0, frameCount = 0, lastDirection = None\<rparr>"
proof -
  have r: "runTracker wobbleCalls =
     \<lparr>accumulatedX = - 0.02, accumulatedY = 0, frameCount = 1, lastDirection = Some Right\<rparr>"
    by (simp add: runTracker_def wobbleCalls_def track_unfold SwipeTracker_reset_def
        newSwipeTracker_def point_def)
  have e: "fst (track \<lparr>accumulatedX = - 0.02, accumulatedY = 0, frameCount = 1,
                        lastDirection = Some Right\<rparr> (point 0.47 0.5) (point 0.53 0.5)) =
             Some Right"
    by (simp add: track_unfold newSwipeTracker_def point_def)
  from swipeTracker_invariant [of wobbleCalls "point 0.47 0.5" "point 0.53 0.5"] r e
  show ?thesis by simp
qed

section \<open>Fist priority\<close>

text \<open>
  Claim C7.  On every current frame for which \<open>isFist\<close> is true, \<open>detectGesture\<close> returns
  \<open>fist\<close>, whatever the previous frame is: absent, too short, or a valid frame from which
  the palm center moved far enough for a swipe.
\<close>

theorem fist_priority:
  assumes "isFist (Some current) = Inr True"
  shows "detectGesture (Some current) previous = Inr Fist"
proof -
  from assms have "\<not> length current < 21"
    by (auto simp: isFist_def)
  with assms show ?thesis
    by (simp add: detectGesture_def bind_result_def)
qed

text \<open>
  The theorem at the fist fixture, without a previous frame and after the open palm, whose
  palm center lies 0.08 lower: a step that \<open>getSwipeDirection\<close> classifies as \<open>up\<close>.
\<close>

theorem fist_priority_witness:
  "isFist (Some fistLandmarks) = Inr True \<and>
   detectGesture (Some fistLandmarks) None = Inr Fist \<and>
   detectGesture (Some fistLandmarks) (Some openPalmLandmarks) = Inr Fist \<and>
   (\<exists>c p. getPalmCenter (Some fistLandmarks) = Inr c \<and>
          getPalmCenter (Some openPalmLandmarks) = Inr p \<and>
          getSwipeDirection c p = Some Up)"
proof -
  have f: "isFist (Some fistLandmarks) = Inr True"
    by (simp add: isFist_valid fixture_defs)
  have s: "\<exists>c p. getPalmCenter (Some fistLandmarks) = Inr c \<and>
          getPalmCenter (Some openPalmLandmarks) = Inr p \<and>
          getSwipeDirection c p = Some Up"
    by (simp add: getPalmCenter_valid getSwipeDirection_def SWIPE_FRAME_THRESHOLD_def
        fixture_defs)
  show ?thesis
    using f s fist_priority [OF f, of None] fist_priority [OF f, of "Some openPalmLandmarks"]
    by simp
qed

section \<open>What the palm center depends on\<close>

text \<open>
  Claim C9.  Two frames of at least 21 landmarks that agree on the \<open>x\<close> and \<open>y\<close> of the
  landmarks 0, 5, 9, 13 and 17 have the same palm center; no \<open>z\<close> and no other landmark
  enters the result.
\<close>

theorem palmCenter_depends_on_five:
  assumes "21 \<le> length a" and "21 \<le> length b"
    and "\<forall>i \<in> {WRIST, INDEX_MCP, MIDDLE_MCP, RING_MCP, PINKY_MCP}.
           x (a ! i) = x (b ! i) \<and> y (a ! i) = y (b ! i)"
  shows "getPalmCenter (Some a) = getPalmCenter (Some b)"
  using assms by (simp add: getPalmCenter_valid LANDMARK_defs)

text \<open>
  The theorem at the open palm and at the fist fixture with the five landmarks of the open
  palm written into it (the wrist with a \<open>z\<close> of 3): all fingertips differ, the center
  does not.
\<close>

theorem palmCenter_depends_on_five_witness:
  "openPalmLandmarks \<noteq>
     fistLandmarks[0 := \<lparr>x = 0.5, y = 0.8, z = Some 3\<rparr>, 5 := point 0.4 0.6,
       9 := point 0.5 0.55, 13 := point 0.6 0.6, 17 := point 0.7 0.65] \<and>
   getPalmCenter (Some openPalmLandmarks) =
     getPalmCenter (Some (fistLandmarks[0 := \<lparr>x = 0.5, y = 0.8, z = Some 3\<rparr>,
       5 := point 0.4 0.6, 9 := point 0.5 0.55, 13 := point 0.6 0.6, 17 := point 0.7 0.65]))"
proof
  show "openPalmLandmarks \<noteq>
     fistLandmarks[0 := \<lparr>x = 0.5, y = 0.8, z = Some 3\<rparr>, 5 := point 0.4 0.6,
       9 := point 0.5 0.55, 13 := point 0.6 0.6, 17 := point 0.7 0.65]"
    by (simp add: fixture_defs)
  show "getPalmCenter (Some openPalmLandmarks) =
     getPalmCenter (Some (fistLandmarks[0 := \<lparr>x = 0.5, y = 0.8, z = Some 3\<rparr>,
       5 := point 0.4 0.6, 9 := point 0.5 0.55, 13 := point 0.6 0.6, 17 := point 0.7 0.65]))"
    by (rule palmCenter_depends_on_five) (simp_all add: fixture_defs LANDMARK_defs)
qed

section \<open>Fist and open palm overlap\<close>

text \<open>
  Claim C10.  \<open>isFist\<close> and \<open>isPalmOpen\<close> are not mutually exclusive.  Some frame of 21
  landmarks makes both true, and so does every frame of 21 landmarks in which each of the
  four non-thumb differences \<open>mcp.y - tip.y\<close> lies strictly between 0.05 and 0.07.
\<close>

theorem fist_and_open_overlap:
  "(\<exists>frame. length frame = 21 \<and> isFist (Some frame) = Inr True \<and>
            isPalmOpen (Some frame) = Inr True) \<and>
   (length ls = 21 \<and>
    (\<forall>(tip, mcp) \<in> {(INDEX_TIP, INDEX_MCP), (MIDDLE_TIP, MIDDLE_MCP),
                       (RING_TIP, RING_MCP), (PINKY_TIP, PINKY_MCP)}.
        0.05 < y (ls ! mcp) - y (ls ! tip) \<and> y (ls ! mcp) - y (ls ! tip) < 0.07)
    \<longrightarrow> isFist (Some ls) = Inr True \<and> isPalmOpen (Some ls) = Inr True)"
proof -
  have "length halfOpenLandmarks = 21 \<and> isFist (Some halfOpenLandmarks) = Inr True \<and>
        isPalmOpen (Some halfOpenLandmarks) = Inr True"
    by (simp add: isFist_valid isPalmOpen_valid fixture_defs)
  then have ex: "\<exists>frame. length frame = 21 \<and> isFist (Some frame) = Inr True \<and>
                   isPalmOpen (Some frame) = Inr True"
    by blast
  show ?thesis
    using ex by (simp add: isFist_valid isPalmOpen_valid LANDMARK_defs)
qed

text \<open>The theorem at a frame whose four fingertips are each 0.06 above their knuckle.\<close>

theorem fist_and_open_overlap_witness:
  "isFist (Some halfOpenLandmarks) = Inr True \<and> isPalmOpen (Some halfOpenLandmarks) = Inr True"
  using fist_and_open_overlap [of halfOpenLandmarks]
  by (simp add: fixture_defs LANDMARK_defs)

section \<open>The gesture state manager: single shot and cooldown\<close>

text \<open>
  Claim C5.  From the initial state the first non-none gesture is to be emitted, and after
  \<open>reset()\<close> the same gesture is to be emitted again at once.  The code tests
  \<open>now - gestureStartTime < cooldownMs\<close> also on a fresh or reset manager, whose start
  time is 0, so with a cooldown above the clock reading it suppresses that gesture: a
  manager with a cooldown of \<open>2 \<cdot> 10\<^sup>1\<^sup>2\<close> ms returns \<open>null\<close> for \<open>fist\<close> at a clock
  reading of November 2026, fresh and after \<open>reset()\<close>, and its state stays the initial
  one.
\<close>

theorem first_gesture_suppressed:
  "processGesture (newGestureStateManager 2000000000000) Fist 1793577600000 =
     (None, newGestureStateManager 2000000000000) \<and>
   processGesture (GestureStateManager_reset (newGestureStateManager 2000000000000))
       Fist 1793577600016 =
     (None, newGestureStateManager 2000000000000)"
  by (simp add: processGesture_def newGestureStateManager_def GestureStateManager_reset_def)

section \<open>The gesture state manager: latching\<close>

text \<open>
  Claim C6, as the code has it.  Once a gesture \<open>g\<close> has been emitted at time \<open>t0\<close>:
  a different non-none gesture at any time at or past \<open>t0 + cooldownMs\<close> is emitted and
  becomes the new last gesture with its own start time; over any run of inputs of which
  each is \<open>g\<close> itself (at any time) or a non-none gesture within the cooldown, every
  input is suppressed and the state stays as it is, so that \<open>g\<close> after such a run is
  suppressed however late it comes; an input of \<open>none\<close> emits nothing and clears the
  last gesture, after which \<open>g\<close> at or past \<open>t0 + cooldownMs\<close> is emitted again; and
  \<open>g\<close> is also emitted again with no \<open>none\<close> in between, once a different gesture
  was accepted at \<open>t\<close> and \<open>g\<close> comes at or past \<open>t + cooldownMs\<close>.
\<close>

theorem debounce_latching:
  assumes "processGesture m g t0 = (Some g, locked)"
  shows "(t0 + cooldownMs locked \<le> t \<and> g' \<noteq> NoGesture \<and> g' \<noteq> g \<longrightarrow>
            processGesture locked g' t =
              (Some g', locked\<lparr>lastGesture := g', gestureStartTime := t\<rparr>)) \<and>
         ((\<forall>(h, u) \<in> set ins. h \<noteq> NoGesture \<and> (h = g \<or> u - t0 < cooldownMs locked)) \<longrightarrow>
            processAll locked ins = (replicate (length ins) None, locked) \<and>
            processGesture (snd (processAll locked ins)) g t3 = (None, locked)) \<and>
         fst (processGesture locked NoGesture t1) = None \<and>
         lastGesture (snd (processGesture locked NoGesture t1)) = NoGesture \<and>
         (t0 + cooldownMs locked \<le> t2 \<longrightarrow>
            processGesture (snd (processGesture locked NoGesture t1)) g t2 =
              (Some g, locked\<lparr>gestureStartTime := t2\<rparr>)) \<and>
         (t0 + cooldownMs locked \<le> t \<and> g' \<noteq> NoGesture \<and> g' \<noteq> g \<and>
          t + cooldownMs locked \<le> t4 \<longrightarrow>
            processGesture (snd (processGesture locked g' t)) g t4 =
              (Some g, locked\<lparr>gestureStartTime := t4\<rparr>))"
proof -
  from processGesture_emitted [OF assms]
  have g: "g \<noteq> NoGesture" and l: "locked = m\<lparr>lastGesture := g, gestureStartTime := t0\<rparr>"
    by simp_all
  have lg: "lastGesture locked = g" and st: "gestureStartTime locked = t0"
    by (simp_all add: l)
  have a: "t0 + cooldownMs locked \<le> t \<and> g' \<noteq> NoGesture \<and> g' \<noteq> g \<longrightarrow>
            processGesture locked g' t =
              (Some g', locked\<lparr>lastGesture := g', gestureStartTime := t\<rparr>)"
    by (auto simp: processGesture_def lg st)
  have b: "(\<forall>(h, u) \<in> set ins. h \<noteq> NoGesture \<and> (h = g \<or> u - t0 < cooldownMs locked)) \<longrightarrow>
            processAll locked ins = (replicate (length ins) None, locked) \<and>
            processGesture (snd (processAll locked ins)) g t3 = (None, locked)"
  proof
    assume h: "\<forall>(h, u) \<in> set ins. h \<noteq> NoGesture \<and> (h = g \<or> u - t0 < cooldownMs locked)"
    then have "\<forall>(h, u) \<in> set ins. h \<noteq> NoGesture \<and>
        (h = lastGesture locked \<or> u - gestureStartTime locked < cooldownMs locked)"
      by (simp add: lg st)
    then have p: "processAll locked ins = (replicate (length ins) None, locked)"
      by (rule processAll_locked)
    show "processAll locked ins = (replicate (length ins) None, locked) \<and>
            processGesture (snd (processAll locked ins)) g t3 = (None, locked)"
      using g by (simp add: p processGesture_same lg)
  qed
  have n: "processGesture locked NoGesture t1 = (None, locked\<lparr>lastGesture := NoGesture\<rparr>)"
    using g by (simp add: processGesture_def lg)
  have n1: "fst (processGesture locked NoGesture t1) = None"
    and n2: "lastGesture (snd (processGesture locked NoGesture t1)) = NoGesture"
    by (simp_all add: n)
  have c: "t0 + cooldownMs locked \<le> t2 \<longrightarrow>
            processGesture (snd (processGesture locked NoGesture t1)) g t2 =
              (Some g, locked\<lparr>gestureStartTime := t2\<rparr>)"
    unfolding n using g by (auto simp: processGesture_def st l)
  have d: "t0 + cooldownMs locked \<le> t \<and> g' \<noteq> NoGesture \<and> g' \<noteq> g \<and>
          t + cooldownMs locked \<le> t4 \<longrightarrow>
            processGesture (snd (processGesture locked g' t)) g t4 =
              (Some g, locked\<lparr>gestureStartTime := t4\<rparr>)"
    using g by (auto simp: processGesture_def lg st l)
  from a b n1 n2 c d show ?thesis
    by (intro conjI)
qed

text \<open>
  The theorem after \<open>fist\<close> was emitted at clock 1000 with a cooldown of 500:
  \<open>swipe-left\<close> at 1500 is emitted; \<open>fist\<close> at 1001, \<open>swipe-left\<close> at 1300 and
  \<open>fist\<close> at 99999 are suppressed; after \<open>none\<close> at 1200, \<open>fist\<close> at 1700 is emitted;
  after \<open>swipe-left\<close> at 1500, \<open>fist\<close> at 2000 is emitted.
\<close>

theorem debounce_latching_witness:
  "processGesture \<lparr>lastGesture = Fist, gestureStartTime = 1000, cooldownMs = 500\<rparr>
       SwipeLeft 1500 =
     (Some SwipeLeft, \<lparr>lastGesture = SwipeLeft, gestureStartTime = 1500, cooldownMs = 500\<rparr>) \<and>
   processAll \<lparr>lastGesture = Fist, gestureStartTime = 1000, cooldownMs = 500\<rparr>
       [(Fist, 1001), (SwipeLeft, 1300), (Fist, 99999)] =
     ([None, None, None], \<lparr>lastGesture = Fist, gestureStartTime = 1000, cooldownMs = 500\<rparr>) \<and>
   processGesture
     (snd (processGesture \<lparr>lastGesture = Fist, gestureStartTime = 1000, cooldownMs = 500\<rparr>
             NoGesture 1200)) Fist 1700 =
     (Some Fist, \<lparr>lastGesture = Fist, gestureStartTime = 1700, cooldownMs = 500\<rparr>) \<and>
   processGesture
     (snd (processGesture \<lparr>lastGesture = Fist, gestureStartTime = 1000, cooldownMs = 500\<rparr>
             SwipeLeft 1500)) Fist 2000 =
     (Some Fist, \<lparr>lastGesture = Fist, gestureStartTime = 2000, cooldownMs = 500\<rparr>)"
proof -
  let ?L = "\<lparr>lastGesture = Fist, gestureStartTime = 1000, cooldownMs = 500\<rparr>"
  let ?ins = "[(Fist, 1001), (SwipeLeft, 1300), (Fist, 99999 :: real)]"
  have e: "processGesture (newGestureStateManager 500) Fist 1000 = (Some Fist, ?L)"
    by (simp add: processGesture_def newGestureStateManager_def)
  note th = debounce_latching [OF e, where t = 1500 and g' = SwipeLeft and ins = ?ins
      and ?t1.0 = 1200 and ?t2.0 = 1700 and ?t3.0 = 100000 and ?t4.0 = 2000]
  have h1: "1000 + cooldownMs ?L \<le> 1500 \<and> SwipeLeft \<noteq> NoGesture \<and> SwipeLeft \<noteq> Fist"
    by simp
  have h2: "\<forall>(h, u) \<in> set ?ins. h \<noteq> NoGesture \<and> (h = Fist \<or> u - 1000 < cooldownMs ?L)"
    by simp
  have h3: "1000 + cooldownMs ?L \<le> 1700"
    by simp
  have h4: "1000 + cooldownMs ?L \<le> 1500 \<and> SwipeLeft \<noteq> NoGesture \<and> SwipeLeft \<noteq> Fist \<and>
            1500 + cooldownMs ?L \<le> 2000"
    by simp
  have c1: "processGesture ?L SwipeLeft 1500 =
      (Some SwipeLeft, ?L\<lparr>lastGesture := SwipeLeft, gestureStartTime := 1500\<rparr>)"
    by (rule th [THEN conjunct1, THEN mp, OF h1])
  have "processAll ?L ?ins = (replicate (length ?ins) None, ?L)"
    by (rule th [THEN conjunct2, THEN conjunct1, THEN mp, OF h2, THEN conjunct1])
  then have c2: "processAll ?L ?ins = ([None, None, None], ?L)"
    by (simp del: processAll.simps)
  have c3: "processGesture (snd (processGesture ?L NoGesture 1200)) Fist 1700 =
      (Some Fist, ?L\<lparr>gestureStartTime := 1700\<rparr>)"
    by (rule th [THEN conjunct2, THEN conjunct2, THEN conjunct2, THEN conjunct2,
          THEN conjunct1, THEN mp, OF h3])
  have c4: "processGesture (snd (processGesture ?L SwipeLeft 1500)) Fist 2000 =
      (Some Fist, ?L\<lparr>gestureStartTime := 2000\<rparr>)"
    by (rule th [THEN conjunct2, THEN conjunct2, THEN conjunct2, THEN conjunct2,
          THEN conjunct2, THEN mp, OF h4])
  from c1 c2 c3 c4 show ?thesis
    by (simp del: processAll.simps)
qed

text \<open>
  Claim C6 as the specification states it (the same gesture stays suppressed at every
  later time until a \<open>none\<close> comes) fails when another gesture is accepted in between:
  \<open>fist\<close> at 1000, \<open>swipe-left\<close> at 1500 and \<open>fist\<close> at 2000 are all three emitted,
  with no \<open>none\<close> among them.
\<close>

theorem debounce_relatch_counterexample:
  "processAll (newGestureStateManager 500) [(Fist, 1000), (SwipeLeft, 1500), (Fist, 2000)] =
     ([Some Fist, Some SwipeLeft, Some Fist],
      \<lparr>lastGesture = Fist, gestureStartTime = 2000, cooldownMs = 500\<rparr>)"
  by (simp add: processGesture_def newGestureStateManager_def)

end
